theory Spec2Isabelle
  imports Main
begin

section \<open>Penalty ledger of the MovieReviews backend\<close>

text \<open>
  The development embeds \<^verbatim>\<open>backend/penalties/schemas.py\<close>,
  \<^verbatim>\<open>backend/penalties/utils.py\<close> and \<^verbatim>\<open>backend/penalties/router.py\<close>.
  The two JSON files (\<^verbatim>\<open>penalties.json\<close> and the active-user file) are an explicit
  state that every operation takes and returns. The clock readings of one operation are
  taken as one instant: the reading \<open>now\<close> is a parameter, a naive UTC
  \<^verbatim>\<open>datetime\<close> counted in microseconds since \<^verbatim>\<open>datetime.min\<close>. The standard library's \<^verbatim>\<open>isoformat\<close> and
  \<^verbatim>\<open>fromisoformat\<close> are parameters too, so every statement holds for whatever
  they compute.
\<close>

subsection \<open>Enumerations\<close>

datatype PenaltyType = review_ban | report_ban | posting_ban | suspension | warning

datatype PenaltySeverity = minor | moderate | severe

datatype PenaltyStatus = active | resolved | expired

text \<open>The string a \<^verbatim>\<open>Literal\<close> value is at run time.\<close>

fun type_str :: "PenaltyType \<Rightarrow> string" where
  "type_str review_ban = ''review_ban''"
| "type_str report_ban = ''report_ban''"
| "type_str posting_ban = ''posting_ban''"
| "type_str suspension = ''suspension''"
| "type_str warning = ''warning''"

fun severity_str :: "PenaltySeverity \<Rightarrow> string" where
  "severity_str minor = ''minor''"
| "severity_str moderate = ''moderate''"
| "severity_str severe = ''severe''"

subsection \<open>The standard library's datetime\<close>

datatype py_error = OverflowError

text \<open>
  \<^verbatim>\<open>fromisoformat\<close> yields a naive datetime or one that carries an offset; comparing
  or subtracting the latter with the naive \<^verbatim>\<open>utcnow()\<close> raises \<^verbatim>\<open>TypeError\<close>.
\<close>

datatype datetime = Naive int | Aware int

definition us_per_day :: int where
  "us_per_day = 86400000000"

text \<open>\<^verbatim>\<open>datetime.max\<close>, 9999-12-31T23:59:59.999999, in microseconds since \<^verbatim>\<open>datetime.min\<close>.\<close>

definition datetime_max :: int where
  "datetime_max = 3652059 * 86400000000 - 1"

text \<open>
  \<^verbatim>\<open>now + timedelta(days=d)\<close>: the timedelta constructor refuses more than 999999999
  days either way, and the sum must stay a datetime.
\<close>

definition add_days :: "int \<Rightarrow> int \<Rightarrow> py_error + int" where
  "add_days now d =
     (if d < - 999999999 \<or> 999999999 < d then Inl OverflowError
      else if now + d * us_per_day < 0 \<or> datetime_max < now + d * us_per_day
           then Inl OverflowError
      else Inr (now + d * us_per_day))"

subsection \<open>schemas.py\<close>

text \<open>
  The model \<^verbatim>\<open>Penalty\<close>. Its fields \<^verbatim>\<open>type\<close> and \<^verbatim>\<open>notes\<close> are \<open>ptype\<close> and
  \<open>pnotes\<close> here.
\<close>

record Penalty =
  user_id :: string
  ptype :: PenaltyType
  severity :: PenaltySeverity
  reason :: string
  pnotes :: "string option"
  penalty_id :: string
  issued_by :: string
  issued_at :: string
  expires_at :: "string option"
  status :: PenaltyStatus

text \<open>
  \<^verbatim>\<open>calculate_expiry\<close>. The arguments are the run-time strings: the function's
  \<^verbatim>\<open>Literal\<close> annotations are not enforced, and it has a branch for any other
  severity.
\<close>

definition expiry_after :: "(int \<Rightarrow> string) \<Rightarrow> int \<Rightarrow> int \<Rightarrow> py_error + string option" where
  "expiry_after isoformat now d =
     (case add_days now d of Inl e \<Rightarrow> Inl e | Inr t \<Rightarrow> Inr (Some (isoformat t)))"

definition calculate_expiry ::
  "(int \<Rightarrow> string) \<Rightarrow> int \<Rightarrow> string \<Rightarrow> string \<Rightarrow> int option \<Rightarrow> py_error + string option" where
  "calculate_expiry isoformat now p_type sev duration_days =
     (case (case duration_days of None \<Rightarrow> None
            | Some d \<Rightarrow> if d \<noteq> 0 \<and> 0 < d then Some d else None) of
        Some d \<Rightarrow> expiry_after isoformat now d
      | None \<Rightarrow>
         if p_type = ''warning'' then Inr None
         else if sev = ''minor'' then expiry_after isoformat now 3
         else if sev = ''moderate'' then expiry_after isoformat now 7
         else if sev = ''severe'' then
           (if p_type = ''suspension'' then expiry_after isoformat now 30
            else expiry_after isoformat now 14)
         else expiry_after isoformat now 7)"

text \<open>
  \<^verbatim>\<open>Penalty.has_expired\<close>: an absent or empty \<^verbatim>\<open>expires_at\<close> is falsy, and every
  exception of the parse or of the comparison is caught.
\<close>

definition has_expired :: "(string \<Rightarrow> datetime option) \<Rightarrow> int \<Rightarrow> 'a Penalty_scheme \<Rightarrow> bool" where
  "has_expired fromisoformat now p =
     (case expires_at p of
        None \<Rightarrow> False
      | Some s \<Rightarrow>
          if s = [] then False
          else (case fromisoformat s of
                  None \<Rightarrow> False
                | Some (Aware t) \<Rightarrow> False
                | Some (Naive t) \<Rightarrow> t < now))"





subsection \<open>The two stores\<close>

text \<open>
  A row of \<^verbatim>\<open>penalties.json\<close> is \<^verbatim>\<open>penalty.dict()\<close>, to which
  \<^verbatim>\<open>resolve_penalty\<close> adds two keys; \<^verbatim>\<open>Penalty(**p)\<close> drops them again.
\<close>

record stored_penalty = Penalty +
  resolved_by :: "string option"
  resolved_at :: "string option"

definition penalty_dict :: "Penalty \<Rightarrow> stored_penalty" where
  "penalty_dict p = Penalty.extend p \<lparr>resolved_by = None, resolved_at = None\<rparr>"

text \<open>
  A row of the active-user file: its identifier and its \<^verbatim>\<open>penalties\<close> key, which may
  be absent. The other keys of a user are never read or written by the ledger.
\<close>

record user =
  u_user_id :: string
  u_penalties :: "string list option"

text \<open>
  Modelled from the spec: \<^verbatim>\<open>load_active_users\<close> and \<^verbatim>\<open>save_active_users\<close> of
  \<^verbatim>\<open>backend/authentication/utils.py\<close> are not among the sources; by the user
  directory's contract they list the whole collection and replace it whole, which is the
  field \<open>active_users\<close> read and written.
\<close>

record state =
  penalties_file :: "stored_penalty list"
  active_users :: "user list"

subsection \<open>utils.py\<close>

text \<open>The linking loop of \<^verbatim>\<open>add_penalty\<close>: the first user with the identifier.\<close>

fun link_penalty_to_user :: "string \<Rightarrow> string \<Rightarrow> user list \<Rightarrow> user list" where
  "link_penalty_to_user uid pid [] = []"
| "link_penalty_to_user uid pid (u # users) =
     (if u_user_id u = uid
      then u\<lparr>u_penalties :=
               Some ((case u_penalties u of None \<Rightarrow> [] | Some ps \<Rightarrow> ps) @ [pid])\<rparr> # users
      else u # link_penalty_to_user uid pid users)"

definition add_penalty :: "Penalty \<Rightarrow> state \<Rightarrow> Penalty \<times> state" where
  "add_penalty penalty s =
     (penalty,
      s\<lparr>penalties_file := penalties_file s @ [penalty_dict penalty],
        active_users :=
          link_penalty_to_user (user_id penalty) (penalty_id penalty) (active_users s)\<rparr>)"

text \<open>
  \<^verbatim>\<open>_unlink_penalty_from_user\<close>: the loop stops at the first user that has the
  identifier and a \<^verbatim>\<open>penalties\<close> key; \<^verbatim>\<open>list.remove\<close> takes out the first
  occurrence.
\<close>

fun unlink_penalty_from_user :: "string \<Rightarrow> string \<Rightarrow> user list \<Rightarrow> user list" where
  "unlink_penalty_from_user uid pid [] = []"
| "unlink_penalty_from_user uid pid (u # users) =
     (case (if u_user_id u = uid then u_penalties u else None) of
        Some ps \<Rightarrow>
          (if pid \<in> set ps then u\<lparr>u_penalties := Some (remove1 pid ps)\<rparr> # users
           else u # users)
      | None \<Rightarrow> u # unlink_penalty_from_user uid pid users)"

text \<open>The inner loop of \<^verbatim>\<open>get_penalties_for_user\<close> over \<^verbatim>\<open>all_penalties\<close>.\<close>

definition mark_expired :: "string \<Rightarrow> stored_penalty list \<Rightarrow> stored_penalty list" where
  "mark_expired pid all_penalties =
     map (\<lambda>stored. if penalty_id stored = pid then stored\<lparr>status := expired\<rparr> else stored)
       all_penalties"

text \<open>
  Its outer loop, over the objects built from the first load. The loop state is
  \<^verbatim>\<open>all_penalties\<close>, the user file and \<^verbatim>\<open>changed\<close>.
\<close>

fun expire_loop ::
  "(string \<Rightarrow> datetime option) \<Rightarrow> int \<Rightarrow> Penalty list \<Rightarrow>
   stored_penalty list \<times> user list \<times> bool \<Rightarrow>
   Penalty list \<times> stored_penalty list \<times> user list \<times> bool" where
  "expire_loop fromisoformat now [] (all_penalties, users, changed) =
     ([], all_penalties, users, changed)"
| "expire_loop fromisoformat now (p # ps) (all_penalties, users, changed) =
     (if status p = active \<and> has_expired fromisoformat now p
      then (case expire_loop fromisoformat now ps
                   (mark_expired (penalty_id p) all_penalties,
                    unlink_penalty_from_user (user_id p) (penalty_id p) users,
                    True) of
              (out, rest) \<Rightarrow> (p\<lparr>status := expired\<rparr> # out, rest))
      else (case expire_loop fromisoformat now ps (all_penalties, users, changed) of
              (out, rest) \<Rightarrow> (p # out, rest)))"

definition get_penalties_for_user ::
  "(string \<Rightarrow> datetime option) \<Rightarrow> int \<Rightarrow> string \<Rightarrow> state \<Rightarrow> Penalty list \<times> state" where
  "get_penalties_for_user fromisoformat now uid s =
     (case expire_loop fromisoformat now
             (map Penalty.truncate (filter (\<lambda>p. user_id p = uid) (penalties_file s)))
             (penalties_file s, active_users s, False) of
        (penalties, all_penalties, users, changed) \<Rightarrow>
          (penalties,
           s\<lparr>penalties_file := (if changed then all_penalties else penalties_file s),
             active_users := users\<rparr>))"


text \<open>\<^verbatim>\<open>if target_user_id:\<close> is false for \<^verbatim>\<open>None\<close> and for the empty string.\<close>

definition unlink_target :: "string option \<Rightarrow> string \<Rightarrow> state \<Rightarrow> state" where
  "unlink_target target_user_id pid s =
     (case target_user_id of
        None \<Rightarrow> s
      | Some uid \<Rightarrow>
          if uid = [] then s
          else s\<lparr>active_users := unlink_penalty_from_user uid pid (active_users s)\<rparr>)"


definition delete_penalty :: "string \<Rightarrow> state \<Rightarrow> state" where
  "delete_penalty pid s =
     unlink_target
       (map_option user_id (find (\<lambda>p. penalty_id p = pid) (penalties_file s)))
       pid
       (s\<lparr>penalties_file := filter (\<lambda>p. penalty_id p \<noteq> pid) (penalties_file s)\<rparr>)"



subsection \<open>router.py\<close>

text \<open>
  The caller that \<^verbatim>\<open>get_current_user\<close> yields is a parameter of every endpoint. An
  endpoint fails with an HTTP error of its own or with an exception it does not catch.
\<close>

record current_user =
  cu_user_id :: string
  cu_role :: string

datatype failure = HTTPException nat string | Raised py_error

record PenaltyCreate =
  c_user_id :: string
  c_type :: PenaltyType
  c_severity :: PenaltySeverity
  c_reason :: string
  c_notes :: "string option"
  duration_days :: "int option"

text \<open>
  \<^verbatim>\<open>issue_penalty\<close>. The fresh \<^verbatim>\<open>uuid4\<close> of the new penalty is the parameter
  \<open>new_id\<close>.
\<close>

definition issue_penalty ::
  "(int \<Rightarrow> string) \<Rightarrow> int \<Rightarrow> string \<Rightarrow> current_user \<Rightarrow> PenaltyCreate \<Rightarrow> state \<Rightarrow>
   (failure + Penalty) \<times> state" where
  "issue_penalty isoformat now new_id cu payload s =
     (if cu_role cu \<notin> set [''administrator'', ''moderator'']
      then (Inl (HTTPException 403 ''Access denied''), s)
      else (case calculate_expiry isoformat now (type_str (c_type payload))
                   (severity_str (c_severity payload)) (duration_days payload) of
              Inl e \<Rightarrow> (Inl (Raised e), s)
            | Inr exp_at \<Rightarrow>
                (case add_penalty
                        \<lparr>user_id = c_user_id payload, ptype = c_type payload,
                         severity = c_severity payload, reason = c_reason payload,
                         pnotes = c_notes payload, penalty_id = new_id,
                         issued_by = cu_user_id cu, issued_at = isoformat now,
                         expires_at = exp_at, status = active\<rparr> s of
                   (saved, s') \<Rightarrow> (Inr saved, s'))))"


definition router_delete_penalty ::
  "current_user \<Rightarrow> string \<Rightarrow> state \<Rightarrow> (failure + string) \<times> state" where
  "router_delete_penalty cu pid s =
     (if cu_role cu \<noteq> ''administrator''
      then (Inl (HTTPException 403 ''Admins only''), s)
      else if length (filter (\<lambda>p. penalty_id p \<noteq> pid) (penalties_file s))
              = length (penalties_file s)
      then (Inl (HTTPException 404 ''Penalty not found''), s)
      else (Inr (''Penalty '' @ pid @ '' deleted successfully.''),
            s\<lparr>penalties_file := filter (\<lambda>p. penalty_id p \<noteq> pid) (penalties_file s)\<rparr>))"

text \<open>
  The subject's active-penalty set, as the user directory's lookup by identifier shows it:
  the \<^verbatim>\<open>penalties\<close> of the first user with the identifier.
\<close>

definition penalties_of :: "string \<Rightarrow> user list \<Rightarrow> string list" where
  "penalties_of uid users =
     (case find (\<lambda>u. u_user_id u = uid) users of
        None \<Rightarrow> []
      | Some u \<Rightarrow> (case u_penalties u of None \<Rightarrow> [] | Some ps \<Rightarrow> ps))"

definition active_penalty_ids :: "string \<Rightarrow> state \<Rightarrow> string list" where
  "active_penalty_ids uid s = penalties_of uid (active_users s)"

subsection \<open>The lazy transition, stated apart from the loop\<close>

text \<open>
  The test of the loop of \<^verbatim>\<open>get_penalties_for_user\<close>, the transition it makes on one
  penalty, and the rows of the file that the loop rewrites: those whose identifier is that
  of a penalty of the subject that is due.
\<close>

definition expiry_due :: "(string \<Rightarrow> datetime option) \<Rightarrow> int \<Rightarrow> 'a Penalty_scheme \<Rightarrow> bool" where
  "expiry_due fromisoformat now p = (status p = active \<and> has_expired fromisoformat now p)"

definition apply_expiry ::
  "(string \<Rightarrow> datetime option) \<Rightarrow> int \<Rightarrow> 'a Penalty_scheme \<Rightarrow> 'a Penalty_scheme" where
  "apply_expiry fromisoformat now p =
     (if expiry_due fromisoformat now p then p\<lparr>status := expired\<rparr> else p)"

definition expire_ids :: "string set \<Rightarrow> stored_penalty list \<Rightarrow> stored_penalty list" where
  "expire_ids ids all_penalties =
     map (\<lambda>stored. if penalty_id stored \<in> ids then stored\<lparr>status := expired\<rparr> else stored)
       all_penalties"

definition due_ids :: "(string \<Rightarrow> datetime option) \<Rightarrow> int \<Rightarrow> string \<Rightarrow> state \<Rightarrow> string set" where
  "due_ids fromisoformat now uid s =
     penalty_id ` {p \<in> set (penalties_file s). user_id p = uid \<and> expiry_due fromisoformat now p}"

section \<open>Token authority\<close>

text \<open>
  Modelled from the spec: \<^verbatim>\<open>backend/authentication/security.py\<close>, which holds the
  verification and revocation of session tokens and the reset tokens, is not among the
  sources. The definitions follow the specification's operations \<^verbatim>\<open>verify\<close>,
  \<^verbatim>\<open>revoke\<close>, \<^verbatim>\<open>createResetToken\<close> and \<^verbatim>\<open>verifyResetToken\<close>. The check of
  signature and structure is the parameter \<open>decode\<close>.
\<close>

datatype auth_error = AuthInvalid | AuthExpired | AuthRevoked

record claims =
  tok_subject :: string
  tok_role :: string
  tok_status :: string
  tok_issued_at :: int
  tok_expires_at :: int

definition verify ::
  "(string \<Rightarrow> claims option) \<Rightarrow> string set \<Rightarrow> int \<Rightarrow> string \<Rightarrow> auth_error + claims" where
  "verify decode revocation_store now token =
     (case decode token of
        None \<Rightarrow> Inl AuthInvalid
      | Some c \<Rightarrow>
          if token \<in> revocation_store then Inl AuthRevoked
          else if tok_expires_at c < now then Inl AuthExpired
          else Inr c)"

definition revoke :: "string \<Rightarrow> string set \<Rightarrow> string set" where
  "revoke token revocation_store = insert token revocation_store"

datatype reset_error = ResetTokenInvalid | ResetTokenExpired | ResetTokenConsumed

record reset_token =
  rt_subject :: string
  rt_expiry :: int
  rt_consumed :: bool

text \<open>
  Modelled from the spec: a reset token lives ten minutes; a token used once fails as
  consumed on every later attempt, whatever its expiry, so that check comes before the
  expiry's. A successful verification marks the token in the store it returns.
\<close>

definition createResetToken ::
  "string \<Rightarrow> string \<Rightarrow> int \<Rightarrow> (string \<rightharpoonup> reset_token) \<Rightarrow> (string \<rightharpoonup> reset_token)" where
  "createResetToken token subject now store =
     store(token \<mapsto> \<lparr>rt_subject = subject, rt_expiry = now + 600000000, rt_consumed = False\<rparr>)"

definition verifyResetToken ::
  "int \<Rightarrow> string \<Rightarrow> (string \<rightharpoonup> reset_token) \<Rightarrow>
   (reset_error + string) \<times> (string \<rightharpoonup> reset_token)" where
  "verifyResetToken now token store =
     (case store token of
        None \<Rightarrow> (Inl ResetTokenInvalid, store)
      | Some r \<Rightarrow>
          if rt_consumed r then (Inl ResetTokenConsumed, store)
          else if rt_expiry r < now then (Inl ResetTokenExpired, store)
          else (Inr (rt_subject r), store(token \<mapsto> r\<lparr>rt_consumed := True\<rparr>)))"

text \<open>A run of verification attempts, each a clock reading and a token.\<close>

fun verify_attempts ::
  "(int \<times> string) list \<Rightarrow> (string \<rightharpoonup> reset_token) \<Rightarrow> (reset_error + string) list" where
  "verify_attempts [] store = []"
| "verify_attempts ((now, token) # rest) store =
     (case verifyResetToken now token store of
        (r, store') \<Rightarrow> r # verify_attempts rest store')"

section \<open>The specification's expiry rule\<close>



section \<open>Example data\<close>

text \<open>
  The standard library's two functions on the texts and instants that the examples use
  (midnight of 1, 4 and 6 January and of 1 February 2025), a subject with two active
  penalties, one of them with an expiry that does not parse, and an administrator.
\<close>

definition ex_isoformat :: "int \<Rightarrow> string" where
  "ex_isoformat t =
     (if t = 63871286400000000 then ''2025-01-01T00:00:00''
      else if t = 63871545600000000 then ''2025-01-04T00:00:00''
      else if t = 63871718400000000 then ''2025-01-06T00:00:00''
      else ''2025-02-01T00:00:00'')"

definition ex_fromisoformat :: "string \<Rightarrow> datetime option" where
  "ex_fromisoformat x =
     (if x = ''2025-01-01T00:00:00'' then Some (Naive 63871286400000000)
      else if x = ''2025-01-04T00:00:00'' then Some (Naive 63871545600000000)
      else if x = ''2025-01-06T00:00:00'' then Some (Naive 63871718400000000)
      else if x = ''2025-02-01T00:00:00'' then Some (Naive 63873964800000000)
      else None)"

definition ex_p1 :: Penalty where
  "ex_p1 = \<lparr>user_id = ''u1'', ptype = review_ban, severity = minor, reason = ''Spam'',
     pnotes = None, penalty_id = ''p1'', issued_by = ''admin1'',
     issued_at = ''2025-01-01T00:00:00'', expires_at = Some ''2025-01-04T00:00:00'',
     status = active\<rparr>"

definition ex_p2 :: Penalty where
  "ex_p2 = \<lparr>user_id = ''u1'', ptype = report_ban, severity = minor, reason = ''Noise'',
     pnotes = None, penalty_id = ''p2'', issued_by = ''admin1'',
     issued_at = ''2025-01-01T00:00:00'', expires_at = Some ''not a date'',
     status = active\<rparr>"

definition ex_state :: state where
  "ex_state = \<lparr>penalties_file = [penalty_dict ex_p1, penalty_dict ex_p2],
     active_users = [\<lparr>u_user_id = ''u1'', u_penalties = Some [''p1'', ''p2'']\<rparr>]\<rparr>"

definition ex_admin :: current_user where
  "ex_admin = \<lparr>cu_user_id = ''admin1'', cu_role = ''administrator''\<rparr>"

text \<open>
  A warning issued with an override of five days, and a directory whose one subject has no
  penalty yet.
\<close>

definition ex_warning :: PenaltyCreate where
  "ex_warning = \<lparr>c_user_id = ''u1'', c_type = warning, c_severity = severe,
     c_reason = ''Rude'', c_notes = None, duration_days = Some 5\<rparr>"

definition ex_empty :: state where
  "ex_empty = \<lparr>penalties_file = [],
     active_users = [\<lparr>u_user_id = ''u1'', u_penalties = Some []\<rparr>]\<rparr>"

section \<open>Properties\<close>

subsection \<open>Expiry computation\<close>






subsection \<open>Tokens\<close>

text \<open>
  Claim C7. A token that passes the structural check and is in the revocation store fails
  verification as revoked at every clock reading, before or after its embedded expiry; in
  particular it does so in the store that revoking it yields.
\<close>

theorem verify_revoked_first:
  "decode T = Some c \<Longrightarrow>
     verify decode (revoke T store) now T = Inl AuthRevoked
     \<and> (T \<in> store \<longrightarrow> verify decode store now T = Inl AuthRevoked)"
  by (simp add: verify_def revoke_def)

theorem verify_revoked_first_witness:
  "(\<lambda>t. if t = ''tok'' then Some \<lparr>tok_subject = ''u1'', tok_role = ''member'',
        tok_status = ''active'', tok_issued_at = 0, tok_expires_at = 100\<rparr> else None) ''tok''
     = Some \<lparr>tok_subject = ''u1'', tok_role = ''member'', tok_status = ''active'',
             tok_issued_at = 0, tok_expires_at = 100\<rparr>
   \<and> verify (\<lambda>t. if t = ''tok'' then Some \<lparr>tok_subject = ''u1'', tok_role = ''member'',
        tok_status = ''active'', tok_issued_at = 0, tok_expires_at = 100\<rparr> else None)
        (revoke ''tok'' {}) 5 ''tok'' = Inl AuthRevoked"
  using verify_revoked_first [of
      "\<lambda>t. if t = ''tok'' then Some \<lparr>tok_subject = ''u1'', tok_role = ''member'',
        tok_status = ''active'', tok_issued_at = 0, tok_expires_at = 100\<rparr> else None"
      "''tok''"
      "\<lparr>tok_subject = ''u1'', tok_role = ''member'', tok_status = ''active'',
        tok_issued_at = 0, tok_expires_at = 100\<rparr>"
      "{}" 5]
  by simp

lemma verifyResetToken_keeps_consumed:
  "store T = Some r \<Longrightarrow> rt_consumed r \<Longrightarrow>
   \<exists>r'. snd (verifyResetToken now tok store) T = Some r' \<and> rt_consumed r'"
  by (auto simp: verifyResetToken_def split: option.splits)

lemma verify_attempts_consumed:
  "store T = Some r \<Longrightarrow> rt_consumed r \<Longrightarrow> i < length attempts \<Longrightarrow>
   snd (attempts ! i) = T \<Longrightarrow> verify_attempts attempts store ! i = Inl ResetTokenConsumed"
proof (induction attempts arbitrary: store r i)
  case Nil
  then show ?case by simp
next
  case (Cons a attempts)
  obtain now tok where a: "a = (now, tok)" by (cases a)
  obtain res store' where v: "verifyResetToken now tok store = (res, store')"
    by (cases "verifyResetToken now tok store")
  from verifyResetToken_keeps_consumed [where store = store and T = T and r = r
      and now = now and tok = tok] Cons.prems(1,2) v
  obtain r' where r': "store' T = Some r'" "rt_consumed r'" by auto
  show ?case
  proof (cases i)
    case 0
    with Cons.prems a have "tok = T" by simp
    with Cons.prems(1,2) v have "res = Inl ResetTokenConsumed"
      by (auto simp: verifyResetToken_def)
    with 0 a v show ?thesis by simp
  next
    case (Suc j)
    with Cons.prems have "j < length attempts" "snd (attempts ! j) = T" by simp_all
    with r' have "verify_attempts attempts store' ! j = Inl ResetTokenConsumed"
      using Cons.IH [of store' r' j] by simp
    with Suc a v show ?thesis by simp
  qed
qed

text \<open>
  Claim C8. Once a verification of a reset token has succeeded, every later attempt on
  that token fails as consumed: in any run of attempts on the store the success left,
  whatever their clock readings and whatever other tokens are tried in between.
\<close>

theorem reset_token_single_use:
  assumes "verifyResetToken now T store = (Inr subject, store')"
    and "i < length attempts" and "snd (attempts ! i) = T"
  shows "verify_attempts attempts store' ! i = Inl ResetTokenConsumed"
proof -
  from assms(1) obtain r where "store' T = Some r" "rt_consumed r"
    by (auto simp: verifyResetToken_def split: option.splits if_splits)
  then show ?thesis
    using assms(2,3) verify_attempts_consumed [of store' T r i attempts] by simp
qed

theorem reset_token_single_use_witness:
  "verifyResetToken 5 ''t'' (createResetToken ''t'' ''u1'' 0 Map.empty)
     = (Inr ''u1'', snd (verifyResetToken 5 ''t'' (createResetToken ''t'' ''u1'' 0 Map.empty)))
   \<and> (1::nat) < length [(6::int, ''x''), (7, ''t'')]
   \<and> snd ([(6::int, ''x''), (7, ''t'')] ! 1) = ''t''
   \<and> verify_attempts [(6, ''x''), (7, ''t'')]
        (snd (verifyResetToken 5 ''t'' (createResetToken ''t'' ''u1'' 0 Map.empty))) ! 1
      = Inl ResetTokenConsumed"
proof -
  have h: "verifyResetToken 5 ''t'' (createResetToken ''t'' ''u1'' 0 Map.empty)
     = (Inr ''u1'', snd (verifyResetToken 5 ''t'' (createResetToken ''t'' ''u1'' 0 Map.empty)))"
    by (simp add: verifyResetToken_def createResetToken_def)
  have l: "(1::nat) < length [(6::int, ''x''), (7, ''t'')]" by simp
  have t: "snd ([(6::int, ''x''), (7, ''t'')] ! 1) = ''t''" by simp
  from reset_token_single_use [OF h l t] h l t show ?thesis by blast
qed

subsection \<open>The loop of the listing\<close>

lemma truncate_sel [simp]:
  "status (Penalty.truncate p) = status p"
  "expires_at (Penalty.truncate p) = expires_at p"
  "user_id (Penalty.truncate p) = user_id p"
  "penalty_id (Penalty.truncate p) = penalty_id p"
  "ptype (Penalty.truncate p) = ptype p"
  "reason (Penalty.truncate p) = reason p"
  by (simp_all add: Penalty.truncate_def)

lemma has_expired_truncate [simp]:
  "has_expired f now (Penalty.truncate p) = has_expired f now p"
  by (simp add: has_expired_def)

lemma has_expired_status_update [simp]:
  "has_expired f now (p\<lparr>status := x\<rparr>) = has_expired f now p"
  by (simp add: has_expired_def)

lemma expiry_due_truncate [simp]:
  "expiry_due f now (Penalty.truncate p) = expiry_due f now p"
  by (simp add: expiry_due_def)

lemma expire_loop_out:
  "fst (expire_loop f now ps st) = map (apply_expiry f now) ps"
proof (induction ps arbitrary: st)
  case Nil
  then show ?case by (cases st) simp
next
  case (Cons p ps)
  obtain a u c where st: "st = (a, u, c)" by (cases st)
  show ?case
    using Cons.IH [of "(a, u, c)"]
      Cons.IH [of "(mark_expired (penalty_id p) a, unlink_penalty_from_user (user_id p) (penalty_id p) u, True)"]
    by (simp add: st apply_expiry_def expiry_due_def case_prod_beta)
qed

lemma expire_ids_empty [simp]: "expire_ids {} a = a"
  by (simp add: expire_ids_def)

lemma mark_expired_expire_ids:
  "expire_ids ids (mark_expired pid a) = expire_ids (insert pid ids) a"
  by (auto simp: expire_ids_def mark_expired_def)

lemma expire_loop_all:
  "fst (snd (expire_loop f now ps (a, u, c))) =
     expire_ids (penalty_id ` {p \<in> set ps. expiry_due f now p}) a"
proof (induction ps arbitrary: a u c)
  case Nil
  then show ?case by simp
next
  case (Cons p ps)
  show ?case
  proof (cases "expiry_due f now p")
    case True
    then have "{q \<in> set (p # ps). expiry_due f now q} = insert p {q \<in> set ps. expiry_due f now q}"
      by auto
    then show ?thesis
      using True Cons.IH [of "mark_expired (penalty_id p) a" "unlink_penalty_from_user (user_id p) (penalty_id p) u" True]
      by (simp add: expiry_due_def mark_expired_expire_ids case_prod_beta)
  next
    case False
    then have "{q \<in> set (p # ps). expiry_due f now q} = {q \<in> set ps. expiry_due f now q}"
      by auto
    then show ?thesis
      using False Cons.IH [of a u c]
      by (auto simp add: expiry_due_def case_prod_beta)
  qed
qed

lemma expire_loop_users:
  "fst (snd (snd (expire_loop f now ps (a, u, c)))) =
     fold (\<lambda>p. unlink_penalty_from_user (user_id p) (penalty_id p))
       (filter (expiry_due f now) ps) u"
proof (induction ps arbitrary: a u c)
  case Nil
  then show ?case by simp
next
  case (Cons p ps)
  show ?case
    using Cons.IH [of a u c]
      Cons.IH [of "mark_expired (penalty_id p) a" "unlink_penalty_from_user (user_id p) (penalty_id p) u" True]
    by (simp add: expiry_due_def case_prod_beta)
qed

lemma expire_loop_changed:
  "snd (snd (snd (expire_loop f now ps (a, u, c)))) = (c \<or> (\<exists>p \<in> set ps. expiry_due f now p))"
proof (induction ps arbitrary: a u c)
  case Nil
  then show ?case by simp
next
  case (Cons p ps)
  show ?case
    using Cons.IH [of a u c]
      Cons.IH [of "mark_expired (penalty_id p) a" "unlink_penalty_from_user (user_id p) (penalty_id p) u" True]
    by (auto simp add: expiry_due_def case_prod_beta)
qed


lemma active_penalty_ids_eq: "active_penalty_ids uid s = penalties_of uid (active_users s)"
  by (simp add: active_penalty_ids_def)

lemma get_penalties_for_user_fst:
  "fst (get_penalties_for_user f now uid s) =
     map (apply_expiry f now)
       (map Penalty.truncate (filter (\<lambda>p. user_id p = uid) (penalties_file s)))"
  using expire_loop_out [of f now
      "map Penalty.truncate (filter (\<lambda>p. user_id p = uid) (penalties_file s))"
      "(penalties_file s, active_users s, False)"]
  by (simp add: get_penalties_for_user_def case_prod_beta)

lemma due_set_truncate:
  "penalty_id ` {p \<in> set (map Penalty.truncate (filter (\<lambda>p. user_id p = uid) xs)).
                  expiry_due f now p}
   = penalty_id ` {p \<in> set xs. user_id p = uid \<and> expiry_due f now p}"
  by (force simp: image_iff)

lemma get_penalties_for_user_file:
  "penalties_file (snd (get_penalties_for_user f now uid s)) =
     expire_ids (due_ids f now uid s) (penalties_file s)"
proof -
  let ?ps = "map Penalty.truncate (filter (\<lambda>p. user_id p = uid) (penalties_file s))"
  let ?r = "expire_loop f now ?ps (penalties_file s, active_users s, False)"
  have a: "fst (snd ?r) = expire_ids (due_ids f now uid s) (penalties_file s)"
    by (simp only: expire_loop_all due_set_truncate due_ids_def)
  have c: "snd (snd (snd ?r)) = (\<exists>p \<in> set ?ps. expiry_due f now p)"
    by (simp add: expire_loop_changed)
  have e: "\<not> (\<exists>p \<in> set ?ps. expiry_due f now p) \<Longrightarrow> due_ids f now uid s = {}"
    by (auto simp: due_ids_def)
  have eq: "penalties_file (snd (get_penalties_for_user f now uid s)) =
      (if snd (snd (snd ?r)) then fst (snd ?r) else penalties_file s)"
    by (simp add: get_penalties_for_user_def case_prod_beta)
  show ?thesis
  proof (cases "snd (snd (snd ?r))")
    case True
    with eq a show ?thesis by simp
  next
    case False
    with c have "\<not> (\<exists>p \<in> set ?ps. expiry_due f now p)" by blast
    then have "due_ids f now uid s = {}" by (rule e)
    with eq False show ?thesis by simp
  qed
qed

lemma fold_unlink_truncate:
  "fold (\<lambda>p. unlink_penalty_from_user (user_id p) (penalty_id p))
     (filter (expiry_due f now)
        (map Penalty.truncate (filter (\<lambda>p. user_id p = uid) xs))) u
   = fold (\<lambda>p. unlink_penalty_from_user uid (penalty_id p))
       (filter (\<lambda>p. user_id p = uid \<and> expiry_due f now p) xs) u"
  by (induction xs arbitrary: u) simp_all

lemma get_penalties_for_user_users:
  "active_users (snd (get_penalties_for_user f now uid s)) =
     fold (\<lambda>p. unlink_penalty_from_user uid (penalty_id p))
       (filter (\<lambda>p. user_id p = uid \<and> expiry_due f now p) (penalties_file s))
       (active_users s)"
  by (simp add: get_penalties_for_user_def case_prod_beta expire_loop_users
        fold_unlink_truncate)

lemma penalties_of_unlink_same:
  "penalties_of uid (unlink_penalty_from_user uid pid users) = remove1 pid (penalties_of uid users)"
proof (induction users)
  case Nil
  then show ?case by (simp add: penalties_of_def)
next
  case (Cons u users)
  then show ?case
    by (auto simp: penalties_of_def remove1_idem split: option.splits)
qed

lemma penalties_of_unlink_other:
  "uid' \<noteq> uid \<Longrightarrow>
   penalties_of uid (unlink_penalty_from_user uid' pid users) = penalties_of uid users"
proof (induction users)
  case Nil
  then show ?case by simp
next
  case (Cons u users)
  then show ?case
    by (auto simp: penalties_of_def split: option.splits)
qed

lemma penalties_of_fold_unlink:
  "penalties_of uid (fold (\<lambda>p. unlink_penalty_from_user uid (g p)) ps users) =
     fold (\<lambda>p. remove1 (g p)) ps (penalties_of uid users)"
  by (induction ps arbitrary: users) (simp_all add: penalties_of_unlink_same)

lemma fold_remove1_distinct:
  "distinct xs \<Longrightarrow>
   distinct (fold (\<lambda>p. remove1 (g p)) ps xs)
   \<and> set (fold (\<lambda>p. remove1 (g p)) ps xs) = set xs - g ` set ps"
proof (induction ps arbitrary: xs)
  case Nil
  then show ?case by simp
next
  case (Cons p ps)
  from Cons.prems have d: "distinct (remove1 (g p) xs)" by simp
  from Cons.IH [OF d] Cons.prems show ?case by auto
qed

lemma get_penalties_for_user_ids:
  "distinct (active_penalty_ids uid s) \<Longrightarrow>
   distinct (active_penalty_ids uid (snd (get_penalties_for_user f now uid s)))
   \<and> set (active_penalty_ids uid (snd (get_penalties_for_user f now uid s)))
     = set (active_penalty_ids uid s) - due_ids f now uid s"
  using fold_remove1_distinct [of "penalties_of uid (active_users s)" penalty_id
      "filter (\<lambda>p. user_id p = uid \<and> expiry_due f now p) (penalties_file s)"]
  by (simp add: active_penalty_ids_eq get_penalties_for_user_users penalties_of_fold_unlink
        due_ids_def)

lemma expire_loop_none:
  "\<forall>p \<in> set ps. \<not> expiry_due f now p \<Longrightarrow> expire_loop f now ps st = (ps, st)"
proof (induction ps arbitrary: st)
  case Nil
  then show ?case by (cases st) simp
next
  case (Cons p ps)
  obtain a u c where st: "st = (a, u, c)" by (cases st)
  from Cons.prems have "\<not> expiry_due f now p" "\<forall>p \<in> set ps. \<not> expiry_due f now p" by simp_all
  with Cons.IH [of "(a, u, c)"] show ?case
    by (auto simp: st expiry_due_def)
qed

lemma get_penalties_for_user_none_due:
  assumes "\<forall>p \<in> set (penalties_file s). user_id p = uid \<longrightarrow> \<not> expiry_due f now p"
  shows "get_penalties_for_user f now uid s =
           (map Penalty.truncate (filter (\<lambda>p. user_id p = uid) (penalties_file s)), s)"
proof -
  from assms have
    "\<forall>p \<in> set (map Penalty.truncate (filter (\<lambda>p. user_id p = uid) (penalties_file s))).
       \<not> expiry_due f now p"
    by auto
  then show ?thesis
    by (simp add: get_penalties_for_user_def expire_loop_none)
qed

lemma expire_ids_none_due:
  "q \<in> set (expire_ids (due_ids f now uid s) (penalties_file s)) \<Longrightarrow> user_id q = uid \<Longrightarrow>
   \<not> expiry_due f now q"
  by (auto simp: expire_ids_def due_ids_def expiry_due_def split: if_splits)

lemma not_due_returned:
  assumes "p \<in> set (penalties_file s)" "user_id p = uid" "\<not> expiry_due f now p"
  shows "Penalty.truncate p \<in> set (fst (get_penalties_for_user f now uid s))"
proof -
  let ?xs = "filter (\<lambda>p. user_id p = uid) (penalties_file s)"
  from assms(1,2) have m: "p \<in> set ?xs" by simp
  from assms(3) have "\<not> expiry_due f now (Penalty.truncate p)"
    unfolding expiry_due_truncate .
  then have e: "apply_expiry f now (Penalty.truncate p) = Penalty.truncate p"
    unfolding apply_expiry_def by (rule if_not_P)
  from m have "apply_expiry f now (Penalty.truncate p)
      \<in> set (map (apply_expiry f now) (map Penalty.truncate ?xs))"
    by (simp only: set_map) (intro imageI)
  with e show ?thesis by (simp only: get_penalties_for_user_fst)
qed

lemma not_due_stored:
  assumes "p \<in> set (penalties_file s)" "distinct (map penalty_id (penalties_file s))"
    "\<not> expiry_due f now p"
  shows "p \<in> set (penalties_file (snd (get_penalties_for_user f now uid s)))"
proof -
  have "penalty_id p \<notin> due_ids f now uid s"
  proof
    assume "penalty_id p \<in> due_ids f now uid s"
    then obtain q where q: "q \<in> set (penalties_file s)" "expiry_due f now q"
      "penalty_id q = penalty_id p"
      by (auto simp: due_ids_def)
    with assms(1,2) have "q = p" by (meson distinct_map inj_onD)
    with q assms(3) show False by simp
  qed
  with assms(1) show ?thesis
    by (force simp: get_penalties_for_user_file expire_ids_def)
qed

lemma expired_row_kept:
  assumes "q \<in> set (penalties_file s)" "status q = expired"
  shows "q \<in> set (penalties_file (snd (get_penalties_for_user f now uid s)))"
proof -
  from assms(2) have e: "q\<lparr>status := expired\<rparr> = q" by simp
  let ?g = "\<lambda>stored. if penalty_id stored \<in> due_ids f now uid s
                       then stored\<lparr>status := expired\<rparr> else stored"
  from e have "?g q = q" by simp
  moreover from assms(1) have "?g q \<in> ?g ` set (penalties_file s)" by (rule imageI)
  ultimately have "q \<in> ?g ` set (penalties_file s)" by simp
  then show ?thesis
    by (simp only: get_penalties_for_user_file expire_ids_def set_map)
qed

lemmas ex_defs = ex_state_def ex_p1_def ex_p2_def ex_admin_def ex_fromisoformat_def
  ex_isoformat_def penalty_dict_def Penalty.defs stored_penalty.defs

lemma ex_get:
  "get_penalties_for_user ex_fromisoformat 63873964800000000 ''u1'' ex_state =
     ([ex_p1\<lparr>status := expired\<rparr>, ex_p2],
      \<lparr>penalties_file = [penalty_dict (ex_p1\<lparr>status := expired\<rparr>), penalty_dict ex_p2],
       active_users = [\<lparr>u_user_id = ''u1'', u_penalties = Some [''p2'']\<rparr>]\<rparr>)"
  by (simp add: get_penalties_for_user_def ex_defs has_expired_def mark_expired_def)

subsection \<open>Lazy expiry\<close>

text \<open>
  Claim C3. Listing a subject's penalties returns every penalty of the subject, with each
  one that is active and past its expiry turned to expired; the file holds the same
  transition for the rows with those identifiers; the identifiers leave the subject's
  active-penalty set (the set being free of duplicates, since \<^verbatim>\<open>list.remove\<close> takes
  out one occurrence); and the operation is idempotent: a second listing at the same clock
  reading on the resulting state returns the stored penalties as they are and leaves the
  state unchanged, and a listing at any other reading leaves every expired row as it is.
\<close>

theorem get_penalties_for_user_lazy_expiry:
  assumes "get_penalties_for_user f now uid s = (ps, s')"
  shows "ps = map (apply_expiry f now)
               (map Penalty.truncate (filter (\<lambda>p. user_id p = uid) (penalties_file s)))
    \<and> penalties_file s' = expire_ids (due_ids f now uid s) (penalties_file s)
    \<and> (distinct (active_penalty_ids uid s) \<longrightarrow>
         set (active_penalty_ids uid s') = set (active_penalty_ids uid s) - due_ids f now uid s)
    \<and> get_penalties_for_user f now uid s' =
         (map Penalty.truncate (filter (\<lambda>p. user_id p = uid) (penalties_file s')), s')
    \<and> (\<forall>now' q. q \<in> set (penalties_file s') \<and> status q = expired \<longrightarrow>
          q \<in> set (penalties_file (snd (get_penalties_for_user f now' uid s'))))"
proof -
  from assms have ps: "ps = fst (get_penalties_for_user f now uid s)"
    and s': "s' = snd (get_penalties_for_user f now uid s)" by simp_all
  have fl: "penalties_file s' = expire_ids (due_ids f now uid s) (penalties_file s)"
    by (simp add: s' get_penalties_for_user_file)
  have "\<forall>q \<in> set (penalties_file s'). user_id q = uid \<longrightarrow> \<not> expiry_due f now q"
    using expire_ids_none_due [of _ f now uid s] by (auto simp: fl)
  then have idem: "get_penalties_for_user f now uid s' =
         (map Penalty.truncate (filter (\<lambda>p. user_id p = uid) (penalties_file s')), s')"
    by (rule get_penalties_for_user_none_due)
  have later: "\<forall>now' q. q \<in> set (penalties_file s') \<and> status q = expired \<longrightarrow>
      q \<in> set (penalties_file (snd (get_penalties_for_user f now' uid s')))"
    using expired_row_kept [of _ s'] by blast
  have "ps = map (apply_expiry f now)
               (map Penalty.truncate (filter (\<lambda>p. user_id p = uid) (penalties_file s)))"
    by (simp only: ps get_penalties_for_user_fst)
  moreover have "distinct (active_penalty_ids uid s) \<longrightarrow>
         set (active_penalty_ids uid s') = set (active_penalty_ids uid s) - due_ids f now uid s"
    using get_penalties_for_user_ids [of uid s f now] by (simp add: s')
  ultimately show ?thesis using fl idem later by blast
qed

theorem get_penalties_for_user_lazy_expiry_witness:
  "get_penalties_for_user ex_fromisoformat 63873964800000000 ''u1'' ex_state =
     ([ex_p1\<lparr>status := expired\<rparr>, ex_p2],
      \<lparr>penalties_file = [penalty_dict (ex_p1\<lparr>status := expired\<rparr>), penalty_dict ex_p2],
       active_users = [\<lparr>u_user_id = ''u1'', u_penalties = Some [''p2'']\<rparr>]\<rparr>)
   \<and> get_penalties_for_user ex_fromisoformat 63873964800000000 ''u1''
        \<lparr>penalties_file = [penalty_dict (ex_p1\<lparr>status := expired\<rparr>), penalty_dict ex_p2],
         active_users = [\<lparr>u_user_id = ''u1'', u_penalties = Some [''p2'']\<rparr>]\<rparr> =
     ([ex_p1\<lparr>status := expired\<rparr>, ex_p2],
      \<lparr>penalties_file = [penalty_dict (ex_p1\<lparr>status := expired\<rparr>), penalty_dict ex_p2],
       active_users = [\<lparr>u_user_id = ''u1'', u_penalties = Some [''p2'']\<rparr>]\<rparr>)"
proof -
  note h = ex_get
  note idem = get_penalties_for_user_lazy_expiry
    [OF h, THEN conjunct2, THEN conjunct2, THEN conjunct2, THEN conjunct1]
  have "map Penalty.truncate (filter (\<lambda>p. user_id p = ''u1'')
        [penalty_dict (ex_p1\<lparr>status := expired\<rparr>), penalty_dict ex_p2])
      = [ex_p1\<lparr>status := expired\<rparr>, ex_p2]"
    by (simp add: ex_defs)
  with idem h show ?thesis by simp
qed


text \<open>
  Claim C10. A penalty whose \<^verbatim>\<open>expires_at\<close> is absent or does not parse has not
  expired at any clock reading: the check returns false, where the source catches the
  parse's exception. So a listing returns the penalty as it is stored, and, the
  identifiers of the file being distinct, leaves its row untouched.
\<close>

theorem has_expired_unparseable:
  fixes p :: stored_penalty
  assumes "expires_at p = None \<or> (\<exists>x. expires_at p = Some x \<and> fromisoformat x = None)"
  shows "\<not> has_expired fromisoformat now p
    \<and> (p \<in> set (penalties_file s) \<and> user_id p = uid \<longrightarrow>
         Penalty.truncate p \<in> set (fst (get_penalties_for_user fromisoformat now uid s)))
    \<and> (p \<in> set (penalties_file s) \<and> distinct (map penalty_id (penalties_file s)) \<longrightarrow>
         p \<in> set (penalties_file (snd (get_penalties_for_user fromisoformat now uid' s))))"
proof -
  from assms have h: "\<not> has_expired fromisoformat now p"
    by (auto simp: has_expired_def)
  then have d: "\<not> expiry_due fromisoformat now p" by (simp add: expiry_due_def)
  from h d show ?thesis
    using not_due_returned [of p s uid fromisoformat now]
      not_due_stored [of p s fromisoformat now uid']
    by blast
qed


theorem has_expired_unparseable_witness:
  "(expires_at (penalty_dict ex_p2) = None
      \<or> (\<exists>x. expires_at (penalty_dict ex_p2) = Some x \<and> ex_fromisoformat x = None))
   \<and> \<not> has_expired ex_fromisoformat 63873964800000000 (penalty_dict ex_p2)
   \<and> Penalty.truncate (penalty_dict ex_p2)
        \<in> set (fst (get_penalties_for_user ex_fromisoformat 63873964800000000 ''u1'' ex_state))
   \<and> penalty_dict ex_p2
        \<in> set (penalties_file
                 (snd (get_penalties_for_user ex_fromisoformat 63873964800000000 ''u1'' ex_state)))"
proof -
  have h: "expires_at (penalty_dict ex_p2) = None
      \<or> (\<exists>x. expires_at (penalty_dict ex_p2) = Some x \<and> ex_fromisoformat x = None)"
    by (simp add: ex_defs)
  have m: "penalty_dict ex_p2 \<in> set (penalties_file ex_state)
      \<and> user_id (penalty_dict ex_p2) = ''u1''
      \<and> distinct (map penalty_id (penalties_file ex_state))"
    by (simp add: ex_defs)
  from has_expired_unparseable [OF h, where now = 63873964800000000 and s = ex_state
      and uid = "''u1''" and uid' = "''u1''"] h m
  show ?thesis by blast
qed

subsection \<open>The restriction check\<close>





subsection \<open>Warnings\<close>

lemma truncate_penalty_dict [simp]: "Penalty.truncate (penalty_dict p) = p"
  by (simp add: penalty_dict_def Penalty.defs)

lemma penalty_dict_sel [simp]:
  "expires_at (penalty_dict p) = expires_at p"
  "status (penalty_dict p) = status p"
  "user_id (penalty_dict p) = user_id p"
  "penalty_id (penalty_dict p) = penalty_id p"
  by (simp_all add: penalty_dict_def Penalty.defs)

lemma calculate_expiry_warning:
  "od = None \<or> (\<exists>d. od = Some d \<and> d \<le> 0) \<Longrightarrow>
   calculate_expiry isoformat now ''warning'' sev od = Inr None"
  by (auto simp: calculate_expiry_def)

lemmas ex_defs2 = ex_defs ex_warning_def ex_empty_def

text \<open>
  Claim C6, as amended. A warning issued with no override, or with an override that is not
  positive, is stored with no expiry and as active. Such a penalty has expired at no clock
  reading, a listing of its subject returns it as it was issued, and, the identifiers of
  the file being distinct, no listing rewrites its row.
\<close>

theorem warning_without_override_never_expires:
  assumes "cu_role cu = ''administrator'' \<or> cu_role cu = ''moderator''"
    and "c_type payload = warning"
    and "duration_days payload = None \<or> (\<exists>d. duration_days payload = Some d \<and> d \<le> 0)"
  shows "\<exists>saved s'. issue_penalty isoformat now new_id cu payload s = (Inr saved, s')
      \<and> ptype saved = warning \<and> expires_at saved = None \<and> status saved = active
      \<and> penalty_dict saved \<in> set (penalties_file s')
      \<and> (\<forall>f t. \<not> has_expired f t saved)
      \<and> (\<forall>f t st. penalty_dict saved \<in> set (penalties_file st) \<longrightarrow>
            saved \<in> set (fst (get_penalties_for_user f t (user_id saved) st)))
      \<and> (\<forall>f t uid st. penalty_dict saved \<in> set (penalties_file st)
              \<and> distinct (map penalty_id (penalties_file st)) \<longrightarrow>
            penalty_dict saved
              \<in> set (penalties_file (snd (get_penalties_for_user f t uid st))))"
proof -
  define saved where "saved = \<lparr>user_id = c_user_id payload, ptype = c_type payload,
      severity = c_severity payload, reason = c_reason payload, pnotes = c_notes payload,
      penalty_id = new_id, issued_by = cu_user_id cu, issued_at = isoformat now,
      expires_at = None, status = active\<rparr>"
  define s' where "s' = snd (add_penalty saved s)"
  have ce: "calculate_expiry isoformat now (type_str (c_type payload))
      (severity_str (c_severity payload)) (duration_days payload) = Inr None"
    using assms(2,3) calculate_expiry_warning [of "duration_days payload"] by simp
  have i: "issue_penalty isoformat now new_id cu payload s = (Inr saved, s')"
    using assms(1) ce by (auto simp: issue_penalty_def add_penalty_def saved_def s'_def)
  have ty: "ptype saved = warning" using assms(2) by (simp add: saved_def)
  have ex: "expires_at saved = None" by (simp add: saved_def)
  have st: "status saved = active" by (simp add: saved_def)
  have m: "penalty_dict saved \<in> set (penalties_file s')"
    by (simp add: add_penalty_def s'_def)
  have h: "\<forall>f t. \<not> has_expired f t saved" using ex by (simp add: has_expired_def)
  have h': "\<And>f t. \<not> expiry_due f t (penalty_dict saved)"
    using ex by (simp add: expiry_due_def has_expired_def)
  have r: "\<forall>f t st. penalty_dict saved \<in> set (penalties_file st) \<longrightarrow>
      saved \<in> set (fst (get_penalties_for_user f t (user_id saved) st))"
  proof (intro allI impI)
    fix f t and st :: state
    assume "penalty_dict saved \<in> set (penalties_file st)"
    then have "Penalty.truncate (penalty_dict saved)
        \<in> set (fst (get_penalties_for_user f t (user_id saved) st))"
      using h' by (intro not_due_returned) simp_all
    then show "saved \<in> set (fst (get_penalties_for_user f t (user_id saved) st))"
      by (simp only: truncate_penalty_dict)
  qed
  have k: "\<forall>f t uid st. penalty_dict saved \<in> set (penalties_file st)
        \<and> distinct (map penalty_id (penalties_file st)) \<longrightarrow>
      penalty_dict saved \<in> set (penalties_file (snd (get_penalties_for_user f t uid st)))"
    using not_due_stored [of "penalty_dict saved"] h' by blast
  from i ty ex st m h r k show ?thesis by blast
qed

theorem warning_without_override_never_expires_witness:
  "(cu_role ex_admin = ''administrator'' \<or> cu_role ex_admin = ''moderator'')
   \<and> c_type (ex_warning\<lparr>duration_days := None\<rparr>) = warning
   \<and> (duration_days (ex_warning\<lparr>duration_days := None\<rparr>) = None
        \<or> (\<exists>d. duration_days (ex_warning\<lparr>duration_days := None\<rparr>) = Some d \<and> d \<le> 0))
   \<and> (\<exists>saved s'. issue_penalty ex_isoformat 63871286400000000 ''p3'' ex_admin
          (ex_warning\<lparr>duration_days := None\<rparr>) ex_empty = (Inr saved, s')
        \<and> expires_at saved = None
        \<and> \<not> has_expired ex_fromisoformat 63873964800000000 saved)"
proof -
  have a: "cu_role ex_admin = ''administrator'' \<or> cu_role ex_admin = ''moderator''"
    by (simp add: ex_defs2)
  have b: "c_type (ex_warning\<lparr>duration_days := None\<rparr>) = warning"
    by (simp add: ex_defs2)
  have c: "duration_days (ex_warning\<lparr>duration_days := None\<rparr>) = None
        \<or> (\<exists>d. duration_days (ex_warning\<lparr>duration_days := None\<rparr>) = Some d \<and> d \<le> 0)"
    by simp
  from warning_without_override_never_expires [OF a b c,
      of ex_isoformat 63871286400000000 "''p3''" ex_empty] a b c
  show ?thesis by blast
qed

text \<open>
  The claim as stated fails for a warning issued with a positive override: the override
  comes first in \<^verbatim>\<open>calculate_expiry\<close>, the warning gets an expiry five days on, and a
  listing after that instant returns it as expired.
\<close>

theorem warning_with_override_expires:
  "fst (issue_penalty ex_isoformat 63871286400000000 ''p3'' ex_admin ex_warning ex_empty)
     = Inr \<lparr>user_id = ''u1'', ptype = warning, severity = severe, reason = ''Rude'',
            pnotes = None, penalty_id = ''p3'', issued_by = ''admin1'',
            issued_at = ''2025-01-01T00:00:00'', expires_at = Some ''2025-01-06T00:00:00'',
            status = active\<rparr>
   \<and> map status (fst (get_penalties_for_user ex_fromisoformat 63873964800000000 ''u1''
        (snd (issue_penalty ex_isoformat 63871286400000000 ''p3'' ex_admin ex_warning
                ex_empty))))
     = [expired]"
  by (simp add: issue_penalty_def calculate_expiry_def expiry_after_def add_days_def
        us_per_day_def datetime_max_def add_penalty_def get_penalties_for_user_def
        has_expired_def mark_expired_def ex_defs2)

subsection \<open>Resolving\<close>








subsection \<open>Deleting\<close>

text \<open>
  Claim C1. The delete endpoint takes an active penalty out of the file and reports
  success, but does not touch the user file: the identifier of a penalty that no longer
  exists stays in its subject's active-penalty set.
\<close>

theorem router_delete_penalty_keeps_link:
  "router_delete_penalty ex_admin ''p1'' ex_state
     = (Inr ''Penalty p1 deleted successfully.'',
        ex_state\<lparr>penalties_file := [penalty_dict ex_p2]\<rparr>)
   \<and> find (\<lambda>p. penalty_id p = ''p1'')
        (penalties_file (snd (router_delete_penalty ex_admin ''p1'' ex_state))) = None
   \<and> active_penalty_ids ''u1'' (snd (router_delete_penalty ex_admin ''p1'' ex_state))
     = [''p1'', ''p2'']"
  by (simp add: router_delete_penalty_def active_penalty_ids_def penalties_of_def ex_defs)

text \<open>
  Claim C5. The delete endpoint fails with 404 for an unknown identifier and removes the
  row of a known one, as \<^verbatim>\<open>delete_penalty\<close> of \<^verbatim>\<open>utils.py\<close> does; but only the
  latter, which the endpoint does not call, unlinks the identifier from the subject, and
  it has no not-found outcome.
\<close>

theorem router_delete_penalty_differs_from_utils:
  "penalties_file (snd (router_delete_penalty ex_admin ''p2'' ex_state))
     = penalties_file (delete_penalty ''p2'' ex_state)
   \<and> active_penalty_ids ''u1'' (delete_penalty ''p2'' ex_state) = [''p1'']
   \<and> active_penalty_ids ''u1'' (snd (router_delete_penalty ex_admin ''p2'' ex_state))
     = [''p1'', ''p2'']
   \<and> fst (router_delete_penalty ex_admin ''nope'' ex_state)
     = Inl (HTTPException 404 ''Penalty not found'')
   \<and> delete_penalty ''nope'' ex_state = ex_state"
  by (simp add: router_delete_penalty_def delete_penalty_def unlink_target_def
        active_penalty_ids_def penalties_of_def ex_defs)

end
